theory Spec2Isabelle
  imports Main
begin

section \<open>The persisted schema\<close>

text \<open>
  The three tables of the migration, and the identity table \<open>auth.users\<close> they hang
  from. A UUID is a natural number, a timestamp and a calendar date are natural numbers
  (an instant, a day number). The enumerated TEXT columns carry the values the TypeScript
  types allow (\<open>'low' | 'medium' | 'high'\<close> and so on), so their CHECK constraints hold
  by typing. A column declared NOT NULL has a plain type in the stored row; a nullable
  one is an \<open>option\<close>.
\<close>

type_synonym uuid = nat
type_synonym timestamp = nat
type_synonym date = nat

datatype priority = Low | Medium | High
datatype status = Pending | InProgress | Completed
datatype permission = View | Edit

text \<open>A row of \<open>auth.users\<close>, as far as \<open>handle_new_user\<close> reads it.\<close>

record auth_user =
  au_id :: uuid
  au_email :: "string option"
  au_full_name :: "string option"
  au_avatar_url :: "string option"

record profile =
  p_id :: uuid
  p_email :: string
  p_full_name :: "string option"
  p_avatar_url :: "string option"
  p_created_at :: timestamp
  p_updated_at :: timestamp

record task =
  t_id :: uuid
  t_user_id :: uuid
  t_title :: string
  t_description :: "string option"
  t_due_date :: "date option"
  t_priority :: priority
  t_status :: status
  t_created_at :: timestamp
  t_updated_at :: timestamp

record task_share =
  s_id :: uuid
  s_task_id :: uuid
  s_shared_by_user_id :: uuid
  s_shared_with_user_id :: uuid
  s_permission :: permission
  s_created_at :: timestamp

record database =
  db_auth_users :: "auth_user list"
  db_profiles :: "profile list"
  db_tasks :: "task list"
  db_task_shares :: "task_share list"

text \<open>
  What a statement can be refused with. \<open>ProviderError\<close> is a request that never
  reached the tables; \<open>NotSingleRow\<close> is what \<open>.single()\<close> answers when the number of
  rows is not one; \<open>UntranslatableCharacter\<close> is a text value the database cannot hold.
\<close>

datatype pg_error =
    ProviderError
  | RlsViolation
  | NotNullViolation
  | UniqueViolation
  | ForeignKeyViolation
  | NotSingleRow
  | UntranslatableCharacter

section \<open>Row-level security policies\<close>

text \<open>
  \<open>auth.uid()\<close> is the caller: \<open>None\<close> without an authenticated identity. SQL's \<open>=\<close>
  is not true when either side is NULL, also when both are.
\<close>

definition sql_eq :: "'a option \<Rightarrow> 'a option \<Rightarrow> bool" where
  "sql_eq a b = (case (a, b) of (Some x, Some y) \<Rightarrow> x = y | _ \<Rightarrow> False)"

subsection \<open>profiles\<close>

definition users_can_view_all_profiles :: "uuid option \<Rightarrow> profile \<Rightarrow> bool" where
  "users_can_view_all_profiles caller p = True"

definition users_can_update_own_profile :: "uuid option \<Rightarrow> profile \<Rightarrow> bool" where
  "users_can_update_own_profile caller p = sql_eq caller (Some (p_id p))"

text \<open>The row offered to an INSERT on profiles: any column may be missing.\<close>

record profile_insert =
  pi_id :: "uuid option"
  pi_email :: "string option"
  pi_full_name :: "string option"
  pi_avatar_url :: "string option"

definition users_can_insert_own_profile :: "uuid option \<Rightarrow> profile_insert \<Rightarrow> bool" where
  "users_can_insert_own_profile caller new = sql_eq caller (pi_id new)"

subsection \<open>task\_shares\<close>

definition users_can_view_task_shares_for_their_tasks ::
  "uuid option \<Rightarrow> task_share \<Rightarrow> bool" where
  "users_can_view_task_shares_for_their_tasks caller s =
     (sql_eq caller (Some (s_shared_by_user_id s)) \<or>
      sql_eq caller (Some (s_shared_with_user_id s)))"

text \<open>
  A subquery inside a policy runs as the caller too: it sees the rows of the other table
  that the caller's SELECT policies on that table let through.
\<close>

definition select_task_shares :: "uuid option \<Rightarrow> database \<Rightarrow> task_share list" where
  "select_task_shares caller d =
     filter (users_can_view_task_shares_for_their_tasks caller) (db_task_shares d)"

subsection \<open>tasks\<close>

definition users_can_view_own_tasks :: "uuid option \<Rightarrow> task \<Rightarrow> bool" where
  "users_can_view_own_tasks caller t = sql_eq caller (Some (t_user_id t))"

definition users_can_view_shared_tasks :: "uuid option \<Rightarrow> database \<Rightarrow> task \<Rightarrow> bool" where
  "users_can_view_shared_tasks caller d t =
     (\<exists>s \<in> set (select_task_shares caller d).
        s_task_id s = t_id t \<and> sql_eq (Some (s_shared_with_user_id s)) caller)"

definition users_can_insert_own_tasks :: "uuid option \<Rightarrow> task \<Rightarrow> bool" where
  "users_can_insert_own_tasks caller t = sql_eq caller (Some (t_user_id t))"

definition users_can_update_own_tasks :: "uuid option \<Rightarrow> task \<Rightarrow> bool" where
  "users_can_update_own_tasks caller t = sql_eq caller (Some (t_user_id t))"

definition users_can_update_shared_tasks_with_edit_permission ::
  "uuid option \<Rightarrow> database \<Rightarrow> task \<Rightarrow> bool" where
  "users_can_update_shared_tasks_with_edit_permission caller d t =
     (\<exists>s \<in> set (select_task_shares caller d).
        s_task_id s = t_id t \<and> sql_eq (Some (s_shared_with_user_id s)) caller \<and>
        s_permission s = Edit)"

definition users_can_delete_own_tasks :: "uuid option \<Rightarrow> task \<Rightarrow> bool" where
  "users_can_delete_own_tasks caller t = sql_eq caller (Some (t_user_id t))"

text \<open>The policies of one command are permissive: a row passes when any of them holds.\<close>

definition tasks_select_policy :: "uuid option \<Rightarrow> database \<Rightarrow> task \<Rightarrow> bool" where
  "tasks_select_policy caller d t =
     (users_can_view_own_tasks caller t \<or> users_can_view_shared_tasks caller d t)"

definition tasks_update_policy :: "uuid option \<Rightarrow> database \<Rightarrow> task \<Rightarrow> bool" where
  "tasks_update_policy caller d t =
     (users_can_update_own_tasks caller t \<or>
      users_can_update_shared_tasks_with_edit_permission caller d t)"

definition select_tasks :: "uuid option \<Rightarrow> database \<Rightarrow> task list" where
  "select_tasks caller d = filter (tasks_select_policy caller d) (db_tasks d)"

text \<open>The row offered to an INSERT on task\_shares by \<open>shareTask\<close>.\<close>

record task_share_insert =
  si_task_id :: uuid
  si_shared_by_user_id :: "uuid option"
  si_shared_with_user_id :: uuid
  si_permission :: permission

definition users_can_create_shares_for_their_own_tasks ::
  "uuid option \<Rightarrow> database \<Rightarrow> task_share_insert \<Rightarrow> bool" where
  "users_can_create_shares_for_their_own_tasks caller d new =
     (\<exists>t \<in> set (select_tasks caller d).
        t_id t = si_task_id new \<and> sql_eq (Some (t_user_id t)) caller)"

section \<open>Statements against the tables\<close>

text \<open>
  Each statement is atomic: it answers with the new database, or with an error and no
  change. An INSERT checks the row against the policies first, then NOT NULL, then the
  primary key and UNIQUE constraints, then the foreign keys. An UPDATE or a DELETE only
  sees the rows its USING policies (and, as its WHERE clause reads a column, the SELECT
  policies) let through: the other rows are skipped without an error.
\<close>

subsection \<open>profiles\<close>

definition store_profile :: "timestamp \<Rightarrow> profile_insert \<Rightarrow> database \<Rightarrow> pg_error + database" where
  "store_profile now new d =
     (case pi_id new of
        None \<Rightarrow> Inl NotNullViolation
      | Some i \<Rightarrow>
          (case pi_email new of
             None \<Rightarrow> Inl NotNullViolation
           | Some e \<Rightarrow>
               if i \<in> p_id ` set (db_profiles d) then Inl UniqueViolation
               else if i \<notin> au_id ` set (db_auth_users d) then Inl ForeignKeyViolation
               else Inr (d\<lparr>db_profiles := db_profiles d @
                      [\<lparr>p_id = i, p_email = e, p_full_name = pi_full_name new,
                        p_avatar_url = pi_avatar_url new,
                        p_created_at = now, p_updated_at = now\<rparr>]\<rparr>)))"


text \<open>
  \<open>handle_new_user\<close> is SECURITY DEFINER: it inserts as the table's owner, whom the
  policies do not bind. The constraints still hold.
\<close>

definition handle_new_user :: "auth_user \<Rightarrow> timestamp \<Rightarrow> database \<Rightarrow> pg_error + database" where
  "handle_new_user NEW now d =
     store_profile now
       \<lparr>pi_id = Some (au_id NEW), pi_email = au_email NEW,
        pi_full_name = au_full_name NEW, pi_avatar_url = au_avatar_url NEW\<rparr> d"

text \<open>The trigger \<open>on_auth_user_created\<close>: after the identity's row is inserted.\<close>

definition on_auth_user_created :: "auth_user \<Rightarrow> timestamp \<Rightarrow> database \<Rightarrow> pg_error + database" where
  "on_auth_user_created NEW now d =
     (if au_id NEW \<in> au_id ` set (db_auth_users d) then Inl UniqueViolation
      else handle_new_user NEW now (d\<lparr>db_auth_users := db_auth_users d @ [NEW]\<rparr>))"

text \<open>\<open>from('profiles').select('id').eq('email', email).single()\<close>\<close>

definition select_profile_by_email :: "uuid option \<Rightarrow> string \<Rightarrow> database \<Rightarrow> pg_error + uuid" where
  "select_profile_by_email caller email d =
     (case filter (\<lambda>p. p_email p = email)
             (filter (users_can_view_all_profiles caller) (db_profiles d)) of
        [p] \<Rightarrow> Inr (p_id p)
      | _ \<Rightarrow> Inl NotSingleRow)"

subsection \<open>tasks\<close>

text \<open>
  \<open>taskData\<close> of \<open>createTask\<close>: the columns of a task but \<open>id\<close>, \<open>user_id\<close>,
  \<open>created_at\<close> and \<open>updated_at\<close>, which the caller and the column defaults
  (\<open>gen_random_uuid()\<close>, \<open>NOW()\<close>) supply.
\<close>

record task_data =
  td_title :: string
  td_description :: "string option"
  td_due_date :: "date option"
  td_priority :: priority
  td_status :: status

text \<open>The row an INSERT of \<open>taskData\<close> for the owner \<open>uid\<close> stores.\<close>

definition task_row :: "uuid \<Rightarrow> timestamp \<Rightarrow> uuid \<Rightarrow> task_data \<Rightarrow> task" where
  "task_row gen now uid taskData =
     \<lparr>t_id = gen, t_user_id = uid, t_title = td_title taskData,
      t_description = td_description taskData, t_due_date = td_due_date taskData,
      t_priority = td_priority taskData, t_status = td_status taskData,
      t_created_at = now, t_updated_at = now\<rparr>"

text \<open>
  A string is the UTF-8 encoding of the text. A TEXT value cannot hold the character
  U+0000: the statement that carries one is refused before any row is looked at.
\<close>

definition pg_text :: "string \<Rightarrow> bool" where
  "pg_text s = (CHR 0x00 \<notin> set s)"

definition pg_text_opt :: "string option \<Rightarrow> bool" where
  "pg_text_opt v = (case v of None \<Rightarrow> True | Some s \<Rightarrow> pg_text s)"

text \<open>
  \<open>insert([{...taskData, user_id}]).select().single()\<close>: the row comes back, so it
  must pass the SELECT policies as well as the INSERT one.
\<close>

definition insert_task ::
  "uuid option \<Rightarrow> uuid \<Rightarrow> timestamp \<Rightarrow> uuid \<Rightarrow> task_data \<Rightarrow> database
     \<Rightarrow> pg_error + task \<times> database" where
  "insert_task caller gen now uid taskData d =
     (let new = task_row gen now uid taskData
      in if \<not> (pg_text (td_title taskData) \<and> pg_text_opt (td_description taskData))
         then Inl UntranslatableCharacter
         else if \<not> users_can_insert_own_tasks caller new then Inl RlsViolation
         else if \<not> tasks_select_policy caller d new then Inl RlsViolation
         else if gen \<in> t_id ` set (db_tasks d) then Inl UniqueViolation
         else if uid \<notin> p_id ` set (db_profiles d) then Inl ForeignKeyViolation
         else Inr (new, d\<lparr>db_tasks := db_tasks d @ [new]\<rparr>))"

text \<open>
  \<open>updates\<close> of \<open>updateTask\<close> is a \<open>Partial<Task>\<close>: each column is there or not;
  a nullable column that is there may be set to NULL.
\<close>

record task_patch =
  tp_id :: "uuid option"
  tp_user_id :: "uuid option"
  tp_title :: "string option"
  tp_description :: "string option option"
  tp_due_date :: "date option option"
  tp_priority :: "priority option"
  tp_status :: "status option"
  tp_created_at :: "timestamp option"
  tp_updated_at :: "timestamp option"

definition patched :: "'a option \<Rightarrow> 'a \<Rightarrow> 'a" where
  "patched u old = (case u of None \<Rightarrow> old | Some v \<Rightarrow> v)"

definition apply_patch :: "task_patch \<Rightarrow> task \<Rightarrow> task" where
  "apply_patch u t =
     \<lparr>t_id = patched (tp_id u) (t_id t), t_user_id = patched (tp_user_id u) (t_user_id t),
      t_title = patched (tp_title u) (t_title t),
      t_description = patched (tp_description u) (t_description t),
      t_due_date = patched (tp_due_date u) (t_due_date t),
      t_priority = patched (tp_priority u) (t_priority t),
      t_status = patched (tp_status u) (t_status t),
      t_created_at = patched (tp_created_at u) (t_created_at t),
      t_updated_at = patched (tp_updated_at u) (t_updated_at t)\<rparr>"

text \<open>The rows \<open>update(...).eq('id', taskId)\<close> may touch.\<close>

definition update_target :: "uuid option \<Rightarrow> database \<Rightarrow> uuid \<Rightarrow> task \<Rightarrow> bool" where
  "update_target caller d taskId t =
     (t_id t = taskId \<and> tasks_select_policy caller d t \<and> tasks_update_policy caller d t)"

text \<open>
  The UPDATE policies have no WITH CHECK of their own, so their USING clauses are also
  checked on the row as updated, and so are the SELECT policies. Then the primary key of
  each updated row, its owner's profile, and the shares that pointed at a task id the
  update took away (the foreign key has no ON UPDATE action).
\<close>

definition update_tasks ::
  "uuid option \<Rightarrow> task_patch \<Rightarrow> uuid \<Rightarrow> database \<Rightarrow> pg_error + database" where
  "update_tasks caller updates taskId d =
     (let old = filter (update_target caller d taskId) (db_tasks d);
          changed = map (apply_patch updates) old;
          rows = map (\<lambda>t. if update_target caller d taskId t then apply_patch updates t else t)
                   (db_tasks d)
      in if \<exists>t \<in> set changed. \<not> (tasks_update_policy caller d t \<and> tasks_select_policy caller d t)
         then Inl RlsViolation
         else if \<exists>t \<in> set changed. length (filter (\<lambda>r. t_id r = t_id t) rows) \<noteq> 1
         then Inl UniqueViolation
         else if (\<exists>t \<in> set changed. t_user_id t \<notin> p_id ` set (db_profiles d)) \<or>
                 (\<exists>s \<in> set (db_task_shares d).
                    s_task_id s \<in> t_id ` set old \<and> s_task_id s \<notin> t_id ` set rows)
         then Inl ForeignKeyViolation
         else Inr (d\<lparr>db_tasks := rows\<rparr>))"

text \<open>
  \<open>delete().eq('id', taskId)\<close>. The shares of a deleted task go with it
  (\<open>ON DELETE CASCADE\<close>); the cascade is not subject to the policies.
\<close>

definition delete_target :: "uuid option \<Rightarrow> database \<Rightarrow> uuid \<Rightarrow> task \<Rightarrow> bool" where
  "delete_target caller d taskId t =
     (t_id t = taskId \<and> tasks_select_policy caller d t \<and> users_can_delete_own_tasks caller t)"

definition delete_tasks :: "uuid option \<Rightarrow> uuid \<Rightarrow> database \<Rightarrow> database" where
  "delete_tasks caller taskId d =
     (let gone = map t_id (filter (delete_target caller d taskId) (db_tasks d))
      in d\<lparr>db_tasks := filter (\<lambda>t. \<not> delete_target caller d taskId t) (db_tasks d),
           db_task_shares := filter (\<lambda>s. s_task_id s \<notin> set gone) (db_task_shares d)\<rparr>)"

subsection \<open>task\_shares\<close>

definition insert_share ::
  "uuid option \<Rightarrow> uuid \<Rightarrow> timestamp \<Rightarrow> task_share_insert \<Rightarrow> database \<Rightarrow> pg_error + database" where
  "insert_share caller gen now new d =
     (if \<not> users_can_create_shares_for_their_own_tasks caller d new then Inl RlsViolation
      else case si_shared_by_user_id new of
        None \<Rightarrow> Inl NotNullViolation
      | Some by \<Rightarrow>
          if gen \<in> s_id ` set (db_task_shares d) \<or>
             (\<exists>s \<in> set (db_task_shares d).
                s_task_id s = si_task_id new \<and>
                s_shared_with_user_id s = si_shared_with_user_id new)
          then Inl UniqueViolation
          else if si_task_id new \<notin> t_id ` set (db_tasks d) \<or>
                  by \<notin> p_id ` set (db_profiles d) \<or>
                  si_shared_with_user_id new \<notin> p_id ` set (db_profiles d)
          then Inl ForeignKeyViolation
          else Inr (d\<lparr>db_task_shares := db_task_shares d @
                 [\<lparr>s_id = gen, s_task_id = si_task_id new, s_shared_by_user_id = by,
                   s_shared_with_user_id = si_shared_with_user_id new,
                   s_permission = si_permission new, s_created_at = now\<rparr>]\<rparr>))"

subsection \<open>The two reads of fetchTasks\<close>

record profile_summary =
  ps_email :: string
  ps_full_name :: "string option"

record share_view =
  sv_permission :: permission
  sv_shared_with_user_id :: uuid
  sv_profiles :: "profile_summary option"

text \<open>A fetched task: the row, its owner's profile and its shares, as the caller sees them.\<close>

record task_view =
  tv_task :: task
  tv_profiles :: "profile_summary option"
  tv_task_shares :: "share_view list"

definition embed_profile :: "uuid option \<Rightarrow> database \<Rightarrow> uuid \<Rightarrow> profile_summary option" where
  "embed_profile caller d uid =
     map_option (\<lambda>p. \<lparr>ps_email = p_email p, ps_full_name = p_full_name p\<rparr>)
       (find (\<lambda>p. p_id p = uid) (filter (users_can_view_all_profiles caller) (db_profiles d)))"

definition embed_share :: "uuid option \<Rightarrow> database \<Rightarrow> task_share \<Rightarrow> share_view" where
  "embed_share caller d s =
     \<lparr>sv_permission = s_permission s, sv_shared_with_user_id = s_shared_with_user_id s,
      sv_profiles = embed_profile caller d (s_shared_with_user_id s)\<rparr>"

text \<open>\<open>select(*, profiles:user_id (...), task_shares (...)).eq('user_id', user.id)\<close>\<close>

definition select_owned_tasks :: "uuid option \<Rightarrow> uuid \<Rightarrow> database \<Rightarrow> task_view list" where
  "select_owned_tasks caller uid d =
     map (\<lambda>t. \<lparr>tv_task = t, tv_profiles = embed_profile caller d (t_user_id t),
               tv_task_shares = map (embed_share caller d)
                 (filter (\<lambda>s. s_task_id s = t_id t) (select_task_shares caller d))\<rparr>)
       (filter (\<lambda>t. t_user_id t = uid) (select_tasks caller d))"

text \<open>
  \<open>select(*, profiles:user_id (...), task_shares!inner (...))
     .eq('task_shares.shared_with_user_id', user.id)\<close>:
  the filter is on the embedded shares, and \<open>!inner\<close> drops a task whose embedded list
  is empty.
\<close>

definition select_shared_tasks :: "uuid option \<Rightarrow> uuid \<Rightarrow> database \<Rightarrow> task_view list" where
  "select_shared_tasks caller uid d =
     filter (\<lambda>v. tv_task_shares v \<noteq> [])
       (map (\<lambda>t. \<lparr>tv_task = t, tv_profiles = embed_profile caller d (t_user_id t),
                  tv_task_shares = map (embed_share caller d)
                    (filter (\<lambda>s. s_task_id s = t_id t \<and> s_shared_with_user_id s = uid)
                       (select_task_shares caller d))\<rparr>)
          (select_tasks caller d))"

section \<open>The useTasks hook\<close>

text \<open>
  The hook's state is \<open>tasks\<close> and \<open>loading\<close>. The world it runs in holds the database
  and, for the requests to come, whether the provider will fail each of them (\<open>True\<close>:
  the request is answered with an error and reaches no table; no entry: it goes through).
  A function of the hook returns the toasts it showed, in order, and the world it left.
\<close>

record client =
  tasks :: "task_view list"
  loading :: bool

record world =
  db :: database
  faults :: "bool list"
  ui :: client

datatype variant = Default | Destructive

datatype toast = Toast string string variant

definition run :: "(database \<Rightarrow> pg_error + 'a \<times> database) \<Rightarrow> world \<Rightarrow> (pg_error + 'a) \<times> world" where
  "run q w =
     (case q (db w) of
        Inl e \<Rightarrow> (Inl e, w)
      | Inr (r, d) \<Rightarrow> (Inr r, w\<lparr>db := d\<rparr>))"

definition request ::
  "(database \<Rightarrow> pg_error + 'a \<times> database) \<Rightarrow> world \<Rightarrow> (pg_error + 'a) \<times> world" where
  "request q w =
     (case faults w of
        [] \<Rightarrow> run q w
      | failing # rest \<Rightarrow>
          if failing then (Inl ProviderError, w\<lparr>faults := rest\<rparr>)
          else run q (w\<lparr>faults := rest\<rparr>))"

text \<open>
  \<open>user\<close> is the signed-in identity of \<open>useAuth\<close>, and the identity the requests carry.
  Without one \<open>fetchTasks\<close> returns before its \<open>try\<close>, so not even \<open>loading\<close> changes.
\<close>

definition fetchTasks :: "uuid option \<Rightarrow> world \<Rightarrow> toast list \<times> world" where
  "fetchTasks user w =
     (case user of
        None \<Rightarrow> ([], w)
      | Some uid \<Rightarrow>
          (case request (\<lambda>d. Inr (select_owned_tasks user uid d, d)) w of
             (Inl ownedError, w1) \<Rightarrow>
               ([Toast ''Error'' ''Failed to fetch tasks'' Destructive],
                w1\<lparr>ui := (ui w1)\<lparr>loading := False\<rparr>\<rparr>)
           | (Inr ownedTasks, w1) \<Rightarrow>
               (case request (\<lambda>d. Inr (select_shared_tasks user uid d, d)) w1 of
                  (Inl sharedError, w2) \<Rightarrow>
                    ([Toast ''Error'' ''Failed to fetch tasks'' Destructive],
                     w2\<lparr>ui := (ui w2)\<lparr>loading := False\<rparr>\<rparr>)
                | (Inr sharedTasks, w2) \<Rightarrow>
                    ([], w2\<lparr>ui := (ui w2)\<lparr>tasks := ownedTasks @ sharedTasks,
                                          loading := False\<rparr>\<rparr>))))"

definition createTask ::
  "uuid option \<Rightarrow> uuid \<Rightarrow> timestamp \<Rightarrow> task_data \<Rightarrow> world \<Rightarrow> toast list \<times> world" where
  "createTask user gen now taskData w =
     (case user of
        None \<Rightarrow> ([], w)
      | Some uid \<Rightarrow>
          (case request (insert_task user gen now uid taskData) w of
             (Inl error, w1) \<Rightarrow>
               ([Toast ''Error'' ''Failed to create task'' Destructive], w1)
           | (Inr data, w1) \<Rightarrow>
               (case fetchTasks user w1 of
                  (shown, w2) \<Rightarrow>
                    (shown @ [Toast ''Success'' ''Task created successfully'' Default], w2))))"

definition updateTask :: "uuid option \<Rightarrow> uuid \<Rightarrow> task_patch \<Rightarrow> world \<Rightarrow> toast list \<times> world" where
  "updateTask user taskId updates w =
     (case request (\<lambda>d. map_sum id (Pair ()) (update_tasks user updates taskId d)) w of
        (Inl error, w1) \<Rightarrow>
          ([Toast ''Error'' ''Failed to update task'' Destructive], w1)
      | (Inr _, w1) \<Rightarrow>
          (case fetchTasks user w1 of
             (shown, w2) \<Rightarrow>
               (shown @ [Toast ''Success'' ''Task updated successfully'' Default], w2)))"

definition deleteTask :: "uuid option \<Rightarrow> uuid \<Rightarrow> world \<Rightarrow> toast list \<times> world" where
  "deleteTask user taskId w =
     (case request (\<lambda>d. Inr ((), delete_tasks user taskId d)) w of
        (Inl error, w1) \<Rightarrow>
          ([Toast ''Error'' ''Failed to delete task'' Destructive], w1)
      | (Inr _, w1) \<Rightarrow>
          (case fetchTasks user w1 of
             (shown, w2) \<Rightarrow>
               (shown @ [Toast ''Success'' ''Task deleted successfully'' Default], w2)))"

definition shareTask ::
  "uuid option \<Rightarrow> uuid \<Rightarrow> timestamp \<Rightarrow> uuid \<Rightarrow> string \<Rightarrow> permission \<Rightarrow> world
     \<Rightarrow> toast list \<times> world" where
  "shareTask user gen now taskId email permission w =
     (case request (\<lambda>d. map_sum id (\<lambda>i. (i, d)) (select_profile_by_email user email d)) w of
        (Inl profileError, w1) \<Rightarrow>
          ([Toast ''Error'' ''User not found with this email address'' Destructive], w1)
      | (Inr profile_id, w1) \<Rightarrow>
          (case request (\<lambda>d. map_sum id (Pair ())
                   (insert_share user gen now
                      \<lparr>si_task_id = taskId, si_shared_by_user_id = user,
                       si_shared_with_user_id = profile_id, si_permission = permission\<rparr> d)) w1 of
             (Inl error, w2) \<Rightarrow>
               ([Toast ''Error'' ''Failed to share task'' Destructive], w2)
           | (Inr _, w2) \<Rightarrow>
               (case fetchTasks user w2 of
                  (shown, w3) \<Rightarrow>
                    (shown @ [Toast ''Success'' (''Task shared with '' @ email) Default], w3))))"

text \<open>The four mutations of the hook, and the toast each shows when it fails.\<close>

datatype mutation =
    CreateTask uuid timestamp task_data
  | UpdateTask uuid task_patch
  | DeleteTask uuid
  | ShareTask uuid timestamp uuid string permission

fun mutate :: "uuid option \<Rightarrow> mutation \<Rightarrow> world \<Rightarrow> toast list \<times> world" where
  "mutate user (CreateTask gen now taskData) w = createTask user gen now taskData w"
| "mutate user (UpdateTask taskId updates) w = updateTask user taskId updates w"
| "mutate user (DeleteTask taskId) w = deleteTask user taskId w"
| "mutate user (ShareTask gen now taskId email permission) w =
     shareTask user gen now taskId email permission w"

fun failure_toasts :: "mutation \<Rightarrow> toast list" where
  "failure_toasts (CreateTask gen now taskData) =
     [Toast ''Error'' ''Failed to create task'' Destructive]"
| "failure_toasts (UpdateTask taskId updates) =
     [Toast ''Error'' ''Failed to update task'' Destructive]"
| "failure_toasts (DeleteTask taskId) =
     [Toast ''Error'' ''Failed to delete task'' Destructive]"
| "failure_toasts (ShareTask gen now taskId email permission) =
     [Toast ''Error'' ''User not found with this email address'' Destructive,
      Toast ''Error'' ''Failed to share task'' Destructive]"

section \<open>The task card\<close>

text \<open>
  JavaScript's \<open>indexOf\<close> answers \<open>-1\<close> for a missing element, \<open>%\<close> takes the sign of
  the dividend, and reading an array out of range gives \<open>undefined\<close> (\<open>None\<close>).
\<close>

fun indexOf :: "'a list \<Rightarrow> 'a \<Rightarrow> int" where
  "indexOf [] x = -1"
| "indexOf (y # ys) x =
     (if y = x then 0 else (let i = indexOf ys x in if i < 0 then -1 else i + 1))"

definition js_rem :: "int \<Rightarrow> int \<Rightarrow> int" where
  "js_rem a b = sgn a * (\<bar>a\<bar> mod \<bar>b\<bar>)"

definition js_at :: "'a list \<Rightarrow> int \<Rightarrow> 'a option" where
  "js_at xs i = (if 0 \<le> i \<and> i < int (length xs) then Some (xs ! nat i) else None)"

definition statusOrder :: "string list" where
  "statusOrder = [''pending'', ''in-progress'', ''completed'']"

text \<open>The status \<open>handleStatusChange\<close> hands to \<open>onUpdate\<close>, from the task's status.\<close>

definition handleStatusChange :: "string \<Rightarrow> string option" where
  "handleStatusChange task_status =
     (let currentIndex = indexOf statusOrder task_status;
          nextIndex = js_rem (currentIndex + 1) (int (length statusOrder))
      in js_at statusOrder nextIndex)"

section \<open>Scenarios\<close>

text \<open>
  The provider answers the next request of a world when no failure is scheduled for it.
\<close>

definition answering :: "world \<Rightarrow> bool" where
  "answering w = (case faults w of [] \<Rightarrow> True | failing # rest \<Rightarrow> \<not> failing)"

text \<open>The (task, recipient) pairs of the share rows, which the table declares UNIQUE.\<close>

definition share_pairs :: "database \<Rightarrow> (uuid \<times> uuid) list" where
  "share_pairs d = map (\<lambda>s. (s_task_id s, s_shared_with_user_id s)) (db_task_shares d)"

text \<open>
  The databases of the spec's scenarios: Alice owns the task "Write report"; Bob has a
  profile; Carol is an identity with no profile row yet.
\<close>

definition alice :: uuid where "alice = 1"
definition bob :: uuid where "bob = 2"
definition carol :: uuid where "carol = 3"

definition report_task :: task where
  "report_task =
     \<lparr>t_id = 10, t_user_id = alice, t_title = ''Write report'', t_description = None,
      t_due_date = None, t_priority = High, t_status = Pending,
      t_created_at = 100, t_updated_at = 100\<rparr>"

definition scenario_a :: database where
  "scenario_a =
     \<lparr>db_auth_users =
        [\<lparr>au_id = alice, au_email = Some ''alice@example.com'', au_full_name = Some ''Alice'',
          au_avatar_url = None\<rparr>,
         \<lparr>au_id = bob, au_email = Some ''bob@example.com'', au_full_name = None,
          au_avatar_url = None\<rparr>,
         \<lparr>au_id = carol, au_email = Some ''carol@example.com'', au_full_name = None,
          au_avatar_url = None\<rparr>],
      db_profiles =
        [\<lparr>p_id = alice, p_email = ''alice@example.com'', p_full_name = Some ''Alice'',
          p_avatar_url = None, p_created_at = 1, p_updated_at = 1\<rparr>,
         \<lparr>p_id = bob, p_email = ''bob@example.com'', p_full_name = None,
          p_avatar_url = None, p_created_at = 2, p_updated_at = 2\<rparr>],
      db_tasks = [report_task],
      db_task_shares = []\<rparr>"

definition share_with :: "uuid \<Rightarrow> permission \<Rightarrow> task_share" where
  "share_with recipient perm =
     \<lparr>s_id = 20, s_task_id = 10, s_shared_by_user_id = alice,
      s_shared_with_user_id = recipient, s_permission = perm, s_created_at = 101\<rparr>"

text \<open>Scenario B: the task is shared with Bob to view. And: Alice shared it with herself.\<close>

definition scenario_b :: database where
  "scenario_b = scenario_a\<lparr>db_task_shares := [share_with bob View]\<rparr>"

definition scenario_self :: database where
  "scenario_self = scenario_a\<lparr>db_task_shares := [share_with alice View]\<rparr>"

text \<open>Scenario B, where Bob also owns a task of his own.\<close>

definition bobs_task :: task where
  "bobs_task =
     \<lparr>t_id = 11, t_user_id = bob, t_title = ''Buy milk'', t_description = None,
      t_due_date = None, t_priority = Low, t_status = InProgress,
      t_created_at = 103, t_updated_at = 103\<rparr>"

definition scenario_c :: database where
  "scenario_c = scenario_b\<lparr>db_tasks := [report_task, bobs_task]\<rparr>"

text \<open>A fresh session of the hook on a database, and one whose next request fails.\<close>

definition session :: "database \<Rightarrow> world" where
  "session d = \<lparr>db = d, faults = [], ui = \<lparr>tasks = [], loading = True\<rparr>\<rparr>"

definition outage :: "database \<Rightarrow> world" where
  "outage d = \<lparr>db = d, faults = [True], ui = \<lparr>tasks = [], loading = True\<rparr>\<rparr>"

definition title_patch :: "string \<Rightarrow> task_patch" where
  "title_patch s =
     \<lparr>tp_id = None, tp_user_id = None, tp_title = Some s, tp_description = None,
      tp_due_date = None, tp_priority = None, tp_status = None,
      tp_created_at = None, tp_updated_at = None\<rparr>"

definition untitled :: task_data where
  "untitled =
     \<lparr>td_title = [], td_description = None, td_due_date = None,
      td_priority = Medium, td_status = Pending\<rparr>"

text \<open>The same with a description, and a task whose title holds U+0000.\<close>

definition untitled_described :: task_data where
  "untitled_described = untitled\<lparr>td_description := Some ''no title yet''\<rparr>"

definition nul_titled :: task_data where
  "nul_titled = untitled\<lparr>td_title := [CHR 0x00]\<rparr>"

section \<open>Basic facts\<close>

lemma sql_eq_simps [simp]:
  "sql_eq (Some x) (Some y) = (x = y)" "sql_eq None b = False" "sql_eq a None = False"
  by (auto simp: sql_eq_def split: option.splits)

lemmas scenario_defs = alice_def bob_def carol_def report_task_def scenario_a_def
  share_with_def scenario_b_def scenario_self_def session_def outage_def title_patch_def
  untitled_def bobs_task_def scenario_c_def untitled_described_def nul_titled_def

lemmas policy_defs = tasks_select_policy_def tasks_update_policy_def
  users_can_view_own_tasks_def users_can_view_shared_tasks_def users_can_update_own_tasks_def
  users_can_update_shared_tasks_with_edit_permission_def select_task_shares_def
  users_can_view_task_shares_for_their_tasks_def users_can_delete_own_tasks_def
  users_can_insert_own_tasks_def users_can_create_shares_for_their_own_tasks_def
  select_tasks_def users_can_view_all_profiles_def users_can_insert_own_profile_def

subsection \<open>Requests\<close>

lemma run_keeps_ui: "run q w = (r, w') \<Longrightarrow> ui w' = ui w \<and> faults w' = faults w"
  by (auto simp: run_def split: sum.splits prod.splits)

lemma run_Inl: "run q w = (Inl e, w') \<Longrightarrow> w' = w \<and> q (db w) = Inl e"
  by (auto simp: run_def split: sum.splits prod.splits)

lemma run_Inr: "run q w = (Inr r, w') \<Longrightarrow> q (db w) = Inr (r, db w')"
  by (auto simp: run_def split: sum.splits prod.splits)

lemma request_Inl: "request q w = (Inl e, w') \<Longrightarrow> db w' = db w \<and> ui w' = ui w"
  by (auto simp: request_def split: list.splits if_splits dest!: run_Inl)

lemma request_Inr: "request q w = (Inr r, w') \<Longrightarrow> q (db w) = Inr (r, db w') \<and> ui w' = ui w"
  by (auto simp: request_def split: list.splits if_splits dest: run_Inr run_keeps_ui)

lemma request_refused:
  "q (db w) = Inl e \<Longrightarrow> \<exists>e' w'. request q w = (Inl e', w') \<and> db w' = db w \<and> ui w' = ui w"
  by (auto simp: request_def run_def split: list.splits)

lemma request_answering:
  "answering w \<Longrightarrow> q (db w) = Inr (r, d) \<Longrightarrow>
     request q w = (Inr r, w\<lparr>db := d, faults := tl (faults w)\<rparr>)"
  by (auto simp: request_def run_def answering_def split: list.splits)

lemma request_read_db: "request (\<lambda>d. Inr (f d, d)) w = (r, w') \<Longrightarrow> db w' = db w"
  by (auto simp: request_def run_def split: list.splits if_splits)

lemma request_refused_or_not:
  "(\<exists>e w'. request q w = (Inl e, w') \<and> db w' = db w \<and> ui w' = ui w \<and>
       (q (db w) = Inl e \<or> \<not> answering w)) \<or>
   (\<exists>r w'. request q w = (Inr r, w') \<and> q (db w) = Inr (r, db w') \<and> ui w' = ui w)"
proof -
  obtain a w' where req: "request q w = (a, w')"
    by (cases "request q w")
  show ?thesis
  proof (cases a)
    case (Inl e)
    with req have "q (db w) = Inl e \<or> \<not> answering w"
      by (auto simp: request_def run_def answering_def
            split: list.splits if_splits sum.splits prod.splits)
    with req Inl request_Inl [of q w e w'] show ?thesis by simp
  next
    case (Inr r)
    with req request_Inr [of q w r w'] show ?thesis by simp
  qed
qed

lemma answering_session: "answering (session d)"
  by (simp add: answering_def session_def)

subsection \<open>fetchTasks\<close>

lemma fetchTasks_db: "db (snd (fetchTasks user w)) = db w"
  by (auto simp: fetchTasks_def split: option.splits prod.splits sum.splits
        dest!: request_read_db)

lemma fetchTasks_toasts:
  "set (fst (fetchTasks user w)) \<subseteq> {Toast ''Error'' ''Failed to fetch tasks'' Destructive}"
  by (auto simp: fetchTasks_def split: option.splits prod.splits sum.splits)

lemma fetchTasks_shown:
  "fst (fetchTasks (Some uid) w) = [] \<Longrightarrow>
     tasks (ui (snd (fetchTasks (Some uid) w))) =
       select_owned_tasks (Some uid) uid (db w) @ select_shared_tasks (Some uid) uid (db w)"
  by (auto simp: fetchTasks_def split: option.splits prod.splits sum.splits
        dest!: request_Inr)

lemma fetch_session:
  "fetchTasks (Some uid) (session d) =
     ([], \<lparr>db = d, faults = [],
           ui = \<lparr>tasks = select_owned_tasks (Some uid) uid d @ select_shared_tasks (Some uid) uid d,
                 loading = False\<rparr>\<rparr>)"
  by (simp add: fetchTasks_def request_def run_def session_def)

lemma success_path_no_failure:
  "set (fst (fetchTasks user w) @ [Toast ''Success'' msg Default]) \<inter> set (failure_toasts m) = {}"
  using fetchTasks_toasts [of user w] by (cases m) auto

section \<open>Who may read a task\<close>

text \<open>
  C1. For every task and caller, the SELECT policies on tasks let the caller read the task
  exactly when the caller is the task's owner or a share row exists for that task with
  the caller as recipient; with no authenticated identity the read is denied.
\<close>

theorem task_read_policy:
  "(tasks_select_policy caller d t \<longleftrightarrow>
      (\<exists>u. caller = Some u \<and>
           (u = t_user_id t \<or>
            (\<exists>s \<in> set (db_task_shares d).
               s_task_id s = t_id t \<and> s_shared_with_user_id s = u))))
   \<and> \<not> tasks_select_policy None d t"
  by (cases caller)
     (auto simp: tasks_select_policy_def users_can_view_own_tasks_def
        users_can_view_shared_tasks_def select_task_shares_def
        users_can_view_task_shares_for_their_tasks_def)

theorem task_read_policy_witness:
  "tasks_select_policy (Some alice) scenario_b report_task \<and>
   tasks_select_policy (Some bob) scenario_b report_task \<and>
   \<not> tasks_select_policy (Some bob) scenario_a report_task \<and>
   \<not> tasks_select_policy None scenario_b report_task"
  using task_read_policy [of "Some alice" scenario_b report_task]
    task_read_policy [of "Some bob" scenario_b report_task]
    task_read_policy [of "Some bob" scenario_a report_task]
  by (simp add: scenario_defs)

section \<open>Sharing a task\<close>

lemma insert_share_existing:
  assumes "\<exists>s \<in> set (db_task_shares d).
             s_task_id s = si_task_id new \<and> s_shared_with_user_id s = si_shared_with_user_id new"
  shows "insert_share caller gen now new d \<in>
           {Inl RlsViolation, Inl NotNullViolation, Inl UniqueViolation}"
  using assms by (auto simp: insert_share_def split: option.splits)

lemma insert_share_Inr:
  assumes "insert_share caller gen now new d = Inr d'"
  shows "(\<exists>row. d' = d\<lparr>db_task_shares := db_task_shares d @ [row]\<rparr> \<and>
            s_task_id row = si_task_id new \<and>
            s_shared_with_user_id row = si_shared_with_user_id new \<and>
            s_permission row = si_permission new) \<and>
         \<not> (\<exists>s \<in> set (db_task_shares d).
               s_task_id s = si_task_id new \<and>
               s_shared_with_user_id s = si_shared_with_user_id new)"
proof (cases "si_shared_by_user_id new")
  case None
  with assms show ?thesis
    by (simp add: insert_share_def split: if_splits)
next
  case (Some grantor)
  with assms show ?thesis
    by (simp add: insert_share_def split: if_splits)
       (rule exI [of _ "\<lparr>s_id = gen, s_task_id = si_task_id new, s_shared_by_user_id = grantor,
           s_shared_with_user_id = si_shared_with_user_id new,
           s_permission = si_permission new, s_created_at = now\<rparr>"], auto)
qed

lemma insert_share_pairs:
  assumes "insert_share caller gen now new d = Inr d'" and "distinct (share_pairs d)"
  shows "distinct (share_pairs d')"
proof -
  from insert_share_Inr [OF assms(1)] obtain row where
    d': "d' = d\<lparr>db_task_shares := db_task_shares d @ [row]\<rparr>" and
    row: "s_task_id row = si_task_id new" "s_shared_with_user_id row = si_shared_with_user_id new" and
    fresh: "\<not> (\<exists>s \<in> set (db_task_shares d).
               s_task_id s = si_task_id new \<and>
               s_shared_with_user_id s = si_shared_with_user_id new)"
    by blast
  from fresh row have "(s_task_id row, s_shared_with_user_id row) \<notin> set (share_pairs d)"
    by (auto simp: share_pairs_def)
  with assms(2) d' show ?thesis
    by (simp add: share_pairs_def)
qed

lemma select_profile_single:
  "select_profile_by_email caller email d = Inr i \<longleftrightarrow>
     (\<exists>p. filter (\<lambda>p. p_email p = email) (db_profiles d) = [p] \<and> p_id p = i)"
  by (auto simp: select_profile_by_email_def users_can_view_all_profiles_def
        split: list.splits)

lemma shareTask_cases:
  fixes user gen now taskId email permission w
  defines "r \<equiv> shareTask user gen now taskId email permission w"
  shows "(fst r = [Toast ''Error'' ''User not found with this email address'' Destructive] \<and>
          db (snd r) = db w \<and> ui (snd r) = ui w \<and>
          (isl (select_profile_by_email user email (db w)) \<or> \<not> answering w)) \<or>
         (\<exists>i. select_profile_by_email user email (db w) = Inr i \<and>
            fst r = [Toast ''Error'' ''Failed to share task'' Destructive] \<and>
            db (snd r) = db w \<and> ui (snd r) = ui w) \<or>
         (\<exists>i. select_profile_by_email user email (db w) = Inr i \<and>
            insert_share user gen now
              \<lparr>si_task_id = taskId, si_shared_by_user_id = user,
               si_shared_with_user_id = i, si_permission = permission\<rparr> (db w) = Inr (db (snd r)) \<and>
            last (fst r) = Toast ''Success'' (''Task shared with '' @ email) Default)"
proof -
  let ?q = "\<lambda>d. map_sum id (\<lambda>i. (i, d)) (select_profile_by_email user email d)"
  from request_refused_or_not [of ?q w] consider
    (unknown) e w' where "request ?q w = (Inl e, w')" "db w' = db w" "ui w' = ui w"
      "?q (db w) = Inl e \<or> \<not> answering w"
    | (known) i w1 where "request ?q w = (Inr i, w1)" "?q (db w) = Inr (i, db w1)" "ui w1 = ui w"
    by blast
  then show ?thesis
  proof cases
    case unknown
    then show ?thesis
      by (auto simp: r_def shareTask_def map_sum_def isl_def split: sum.splits)
  next
    case known
    then have found: "select_profile_by_email user email (db w) = Inr i" and db1: "db w1 = db w"
      by (auto simp: map_sum_def split: sum.splits)
    let ?i = "\<lambda>d. map_sum id (Pair ())
                   (insert_share user gen now
                      \<lparr>si_task_id = taskId, si_shared_by_user_id = user,
                       si_shared_with_user_id = i, si_permission = permission\<rparr> d)"
    from request_refused_or_not [of ?i w1] consider
      (refused) e w2 where "request ?i w1 = (Inl e, w2)" "db w2 = db w1" "ui w2 = ui w1"
      | (stored) u w2 where "request ?i w1 = (Inr u, w2)" "?i (db w1) = Inr (u, db w2)"
      by blast
    then show ?thesis
    proof cases
      case refused
      with known found db1 show ?thesis
        by (simp add: r_def shareTask_def)
    next
      case stored
      with db1 have "insert_share user gen now
                      \<lparr>si_task_id = taskId, si_shared_by_user_id = user,
                       si_shared_with_user_id = i, si_permission = permission\<rparr> (db w) = Inr (db w2)"
        by (auto simp: map_sum_def split: sum.splits)
      with known stored found fetchTasks_db [of user w2] show ?thesis
        by (simp add: r_def shareTask_def case_prod_beta)
    qed
  qed
qed

text \<open>
  C2 (amended). When the email resolves to one profile and a share row for that task and
  that recipient already exists, \<open>shareTask\<close> does not replace the grant: it fails
  (with "Failed to share task"; with "User not found" only if the provider failed the
  lookup), and leaves the database, so the existing row and its permission, and the hook's
  state unchanged. And \<open>shareTask\<close> never duplicates: if no two share rows had the same
  (task, recipient) pair before, none have after.
\<close>

theorem reshare_is_refused:
  "(filter (\<lambda>p. p_email p = email) (db_profiles (db w)) = [p] \<and>
    (\<exists>s \<in> set (db_task_shares (db w)). s_task_id s = taskId \<and> s_shared_with_user_id s = p_id p)
    \<longrightarrow>
      db (snd (shareTask user gen now taskId email permission w)) = db w \<and>
      ui (snd (shareTask user gen now taskId email permission w)) = ui w \<and>
      (fst (shareTask user gen now taskId email permission w) =
         [Toast ''Error'' ''Failed to share task'' Destructive] \<or>
       \<not> answering w \<and>
       fst (shareTask user gen now taskId email permission w) =
         [Toast ''Error'' ''User not found with this email address'' Destructive]))
   \<and>
   (distinct (share_pairs (db w)) \<longrightarrow>
      distinct (share_pairs (db (snd (shareTask user gen now taskId email permission w)))))"
proof (intro conjI impI)
  assume a: "filter (\<lambda>p. p_email p = email) (db_profiles (db w)) = [p] \<and>
    (\<exists>s \<in> set (db_task_shares (db w)). s_task_id s = taskId \<and> s_shared_with_user_id s = p_id p)"
  then have found: "select_profile_by_email user email (db w) = Inr (p_id p)"
    by (simp add: select_profile_single)
  from a have "insert_share user gen now
                 \<lparr>si_task_id = taskId, si_shared_by_user_id = user,
                  si_shared_with_user_id = p_id p, si_permission = permission\<rparr> (db w) \<in>
               {Inl RlsViolation, Inl NotNullViolation, Inl UniqueViolation}"
    by (intro insert_share_existing) simp
  then have refused: "\<And>d'. insert_share user gen now
                 \<lparr>si_task_id = taskId, si_shared_by_user_id = user,
                  si_shared_with_user_id = p_id p, si_permission = permission\<rparr> (db w) \<noteq> Inr d'"
    by auto
  from shareTask_cases [of user gen now taskId email permission w] found refused
  show "db (snd (shareTask user gen now taskId email permission w)) = db w"
    by auto
  from shareTask_cases [of user gen now taskId email permission w] found refused
  show "ui (snd (shareTask user gen now taskId email permission w)) = ui w"
    by auto
  from shareTask_cases [of user gen now taskId email permission w] found refused
  show "fst (shareTask user gen now taskId email permission w) =
         [Toast ''Error'' ''Failed to share task'' Destructive] \<or>
       \<not> answering w \<and>
       fst (shareTask user gen now taskId email permission w) =
         [Toast ''Error'' ''User not found with this email address'' Destructive]"
    by auto
next
  assume "distinct (share_pairs (db w))"
  with shareTask_cases [of user gen now taskId email permission w] insert_share_pairs
  show "distinct (share_pairs (db (snd (shareTask user gen now taskId email permission w))))"
    by (elim disjE exE conjE) auto
qed

theorem reshare_is_refused_witness:
  "db (snd (shareTask (Some alice) 21 102 10 ''bob@example.com'' Edit (session scenario_b)))
     = scenario_b \<and>
   fst (shareTask (Some alice) 21 102 10 ''bob@example.com'' Edit (session scenario_b)) =
     [Toast ''Error'' ''Failed to share task'' Destructive] \<and>
   distinct (share_pairs scenario_b) \<and>
   distinct (share_pairs
     (db (snd (shareTask (Some alice) 21 102 10 ''bob@example.com'' Edit (session scenario_b)))))"
proof -
  let ?p = "\<lparr>p_id = bob, p_email = ''bob@example.com'', p_full_name = None,
      p_avatar_url = None, p_created_at = 2, p_updated_at = 2\<rparr>"
  have found: "filter (\<lambda>p. p_email p = ''bob@example.com'')
      (db_profiles (db (session scenario_b))) = [?p]"
    by (simp add: scenario_defs)
  have shared: "\<exists>s \<in> set (db_task_shares (db (session scenario_b))).
      s_task_id s = 10 \<and> s_shared_with_user_id s = p_id ?p"
    by (simp add: scenario_defs)
  have pairs: "distinct (share_pairs (db (session scenario_b)))"
    by (simp add: share_pairs_def scenario_defs)
  have up: "answering (session scenario_b)"
    by (simp add: answering_def session_def)
  from reshare_is_refused [of "''bob@example.com''" "session scenario_b" ?p 10 "Some alice" 21 102 Edit]
    found shared pairs up
  show ?thesis
    by (simp add: session_def)
qed

theorem reshare_counterexample:
  "db_task_shares scenario_b = [share_with bob View] \<and>
   fst (shareTask (Some alice) 21 102 10 ''bob@example.com'' Edit (session scenario_b)) =
     [Toast ''Error'' ''Failed to share task'' Destructive] \<and>
   db_task_shares
     (db (snd (shareTask (Some alice) 21 102 10 ''bob@example.com'' Edit (session scenario_b))))
     = [share_with bob View]"
proof -
  have lookup: "select_profile_by_email (Some alice) ''bob@example.com'' scenario_b = Inr bob"
    by (simp add: select_profile_by_email_def users_can_view_all_profiles_def scenario_defs)
  have refused: "insert_share (Some alice) 21 102
      \<lparr>si_task_id = 10, si_shared_by_user_id = Some alice,
       si_shared_with_user_id = bob, si_permission = Edit\<rparr> scenario_b = Inl UniqueViolation"
    by (simp add: insert_share_def scenario_defs policy_defs)
  have "shareTask (Some alice) 21 102 10 ''bob@example.com'' Edit (session scenario_b) =
      ([Toast ''Error'' ''Failed to share task'' Destructive], session scenario_b)"
    by (simp add: shareTask_def request_def run_def session_def lookup refused)
  then show ?thesis
    by (simp add: session_def scenario_b_def)
qed

text \<open>
  C6. For every email address that no profile row holds, \<open>shareTask\<close> fails with the
  "user not found" error, whoever calls it and whatever the provider does: the database
  (so the share rows) and the hook's state are unchanged.
\<close>

theorem share_unknown_email:
  assumes "\<forall>p \<in> set (db_profiles (db w)). p_email p \<noteq> email"
  shows "fst (shareTask user gen now taskId email permission w) =
           [Toast ''Error'' ''User not found with this email address'' Destructive] \<and>
         db (snd (shareTask user gen now taskId email permission w)) = db w \<and>
         ui (snd (shareTask user gen now taskId email permission w)) = ui w"
proof -
  let ?q = "\<lambda>d. map_sum id (\<lambda>i. (i, d)) (select_profile_by_email user email d)"
  from assms have "filter (\<lambda>p. p_email p = email) (db_profiles (db w)) = []"
    by (simp add: filter_empty_conv)
  then have "?q (db w) = Inl NotSingleRow"
    by (simp add: select_profile_by_email_def users_can_view_all_profiles_def)
  from request_refused [of ?q w NotSingleRow, OF this] obtain e' w' where
    "request ?q w = (Inl e', w')" "db w' = db w" "ui w' = ui w"
    by blast
  then show ?thesis
    by (simp add: shareTask_def)
qed

theorem share_unknown_email_witness:
  "fst (shareTask (Some alice) 21 102 10 ''nobody@nowhere.test'' View (session scenario_a)) =
     [Toast ''Error'' ''User not found with this email address'' Destructive] \<and>
   db (snd (shareTask (Some alice) 21 102 10 ''nobody@nowhere.test'' View (session scenario_a)))
     = scenario_a"
proof -
  have "\<forall>p \<in> set (db_profiles (db (session scenario_a))). p_email p \<noteq> ''nobody@nowhere.test''"
    by (simp add: scenario_defs)
  from share_unknown_email [OF this, of "Some alice" 21 102 10 View] show ?thesis
    by (simp add: session_def)
qed

section \<open>Updating a task\<close>

lemma update_tasks_no_target:
  assumes "\<forall>t \<in> set (db_tasks d). t_id t = taskId \<longrightarrow> \<not> tasks_update_policy caller d t"
  shows "update_tasks caller updates taskId d = Inr d"
proof -
  from assms have none: "\<forall>t \<in> set (db_tasks d). \<not> update_target caller d taskId t"
    by (auto simp: update_target_def)
  then have "filter (update_target caller d taskId) (db_tasks d) = []"
    by (simp add: filter_empty_conv)
  moreover from none have
    "map (\<lambda>t. if update_target caller d taskId t then apply_patch updates t else t) (db_tasks d)
       = db_tasks d"
    by (simp add: map_idI)
  ultimately show ?thesis
    by (simp add: update_tasks_def)
qed

lemma view_share_denies_update:
  assumes "t_user_id t \<noteq> u"
    and "\<forall>s \<in> set (db_task_shares d).
           s_task_id s = t_id t \<and> s_shared_with_user_id s = u \<longrightarrow> s_permission s = View"
  shows "\<not> tasks_update_policy (Some u) d t"
  using assms
  by (auto simp: tasks_update_policy_def users_can_update_own_tasks_def
        users_can_update_shared_tasks_with_edit_permission_def select_task_shares_def)

lemma updateTask_answered:
  assumes "answering w" and "update_tasks user updates taskId (db w) = Inr d"
  shows "db (snd (updateTask user taskId updates w)) = d \<and>
         fst (updateTask user taskId updates w) =
           fst (fetchTasks user (w\<lparr>db := d, faults := tl (faults w)\<rparr>)) @
             [Toast ''Success'' ''Task updated successfully'' Default]"
  using request_answering [OF assms(1),
      of "\<lambda>d. map_sum id (Pair ()) (update_tasks user updates taskId d)" "()" d] assms(2)
    fetchTasks_db [of user "w\<lparr>db := d, faults := tl (faults w)\<rparr>"]
  by (simp add: updateTask_def case_prod_beta)

lemma updateTask_db:
  "db (snd (updateTask user taskId updates w)) = db w \<or>
   update_tasks user updates taskId (db w) = Inr (db (snd (updateTask user taskId updates w)))"
proof -
  let ?q = "\<lambda>d. map_sum id (Pair ()) (update_tasks user updates taskId d)"
  from request_refused_or_not [of ?q w] consider
    (refused) e w' where "request ?q w = (Inl e, w')" "db w' = db w"
    | (answered) u w1 where "request ?q w = (Inr u, w1)" "?q (db w) = Inr (u, db w1)"
    by blast
  then show ?thesis
  proof cases
    case refused
    then show ?thesis by (simp add: updateTask_def)
  next
    case answered
    then have "update_tasks user updates taskId (db w) = Inr (db w1)"
      by (auto simp: map_sum_def split: sum.splits)
    with answered fetchTasks_db [of user w1] show ?thesis
      by (simp add: updateTask_def case_prod_beta)
  qed
qed

text \<open>
  C3 (amended). When the UPDATE policies deny the caller on every task with the given id
  (so also when no task has that id, and when the caller holds only a view share),
  \<open>updateTask\<close> changes no stored row; when the provider answers the request it raises
  no error and ends with the success toast.
\<close>

theorem denied_update_reports_success:
  assumes "\<forall>t \<in> set (db_tasks (db w)). t_id t = taskId \<longrightarrow> \<not> tasks_update_policy user (db w) t"
  shows "db (snd (updateTask user taskId updates w)) = db w \<and>
         (answering w \<longrightarrow>
            last (fst (updateTask user taskId updates w)) =
              Toast ''Success'' ''Task updated successfully'' Default \<and>
            Toast ''Error'' ''Failed to update task'' Destructive
              \<notin> set (fst (updateTask user taskId updates w)))"
proof -
  have same: "update_tasks user updates taskId (db w) = Inr (db w)"
    using assms by (rule update_tasks_no_target)
  with updateTask_db [of user taskId updates w]
  have "db (snd (updateTask user taskId updates w)) = db w"
    by auto
  moreover have "last (fst (updateTask user taskId updates w)) =
              Toast ''Success'' ''Task updated successfully'' Default \<and>
            Toast ''Error'' ''Failed to update task'' Destructive
              \<notin> set (fst (updateTask user taskId updates w))" if "answering w"
    using updateTask_answered [OF that same]
      fetchTasks_toasts [of user "w\<lparr>db := db w, faults := tl (faults w)\<rparr>"]
    by auto
  ultimately show ?thesis by blast
qed

theorem denied_update_reports_success_witness:
  "\<not> tasks_update_policy (Some bob) scenario_b report_task \<and>
   db (snd (updateTask (Some bob) 10 (title_patch ''Hijacked'') (session scenario_b)))
     = scenario_b \<and>
   last (fst (updateTask (Some bob) 10 (title_patch ''Hijacked'') (session scenario_b))) =
     Toast ''Success'' ''Task updated successfully'' Default"
proof -
  have denied: "\<not> tasks_update_policy (Some bob) scenario_b report_task"
    by (rule view_share_denies_update) (simp_all add: scenario_defs)
  then have all: "\<forall>t \<in> set (db_tasks (db (session scenario_b))).
      t_id t = 10 \<longrightarrow> \<not> tasks_update_policy (Some bob) (db (session scenario_b)) t"
    by (simp add: session_def scenario_b_def scenario_a_def)
  have up: "answering (session scenario_b)"
    by (simp add: answering_def session_def)
  from denied_update_reports_success [OF all, of "title_patch ''Hijacked''"] up denied
  show ?thesis
    by (simp add: session_def)
qed

theorem denied_update_counterexample:
  "\<not> tasks_update_policy (Some bob) scenario_b report_task \<and>
   fst (updateTask (Some bob) 10 (title_patch ''Hijacked'') (session scenario_b)) =
     [Toast ''Success'' ''Task updated successfully'' Default] \<and>
   fst (updateTask (Some bob) 99 (title_patch ''Hijacked'') (session scenario_b)) =
     [Toast ''Success'' ''Task updated successfully'' Default]"
proof -
  have denied: "\<not> tasks_update_policy (Some bob) scenario_b report_task"
    by (rule view_share_denies_update) (simp_all add: scenario_defs)
  then have a: "update_tasks (Some bob) (title_patch ''Hijacked'') 10 scenario_b = Inr scenario_b"
    by (intro update_tasks_no_target) (simp add: scenario_b_def scenario_a_def)
  have b: "update_tasks (Some bob) (title_patch ''Hijacked'') 99 scenario_b = Inr scenario_b"
    by (intro update_tasks_no_target) (simp add: scenario_defs)
  have quiet: "fst (fetchTasks (Some bob) (session scenario_b)) = []"
    by (simp add: fetchTasks_def request_def run_def session_def)
  have "fst (updateTask (Some bob) 10 (title_patch ''Hijacked'') (session scenario_b)) =
     [Toast ''Success'' ''Task updated successfully'' Default]"
    using quiet by (simp add: updateTask_def request_def run_def session_def a case_prod_beta)
  moreover have "fst (updateTask (Some bob) 99 (title_patch ''Hijacked'') (session scenario_b)) =
     [Toast ''Success'' ''Task updated successfully'' Default]"
    using quiet by (simp add: updateTask_def request_def run_def session_def b case_prod_beta)
  ultimately show ?thesis using denied by simp
qed

section \<open>Deleting a task\<close>

lemma delete_tasks_cascade:
  assumes "\<exists>t \<in> set (db_tasks d). t_id t = taskId"
    and "\<forall>t \<in> set (db_tasks (delete_tasks caller taskId d)). t_id t \<noteq> taskId"
  shows "\<forall>s \<in> set (db_task_shares (delete_tasks caller taskId d)). s_task_id s \<noteq> taskId"
proof -
  from assms(1) obtain t where t: "t \<in> set (db_tasks d)" "t_id t = taskId"
    by blast
  with assms(2) have "delete_target caller d taskId t"
    by (auto simp: delete_tasks_def Let_def)
  with t have "taskId \<in> t_id ` set (filter (delete_target caller d taskId) (db_tasks d))"
    by force
  then show ?thesis
    by (auto simp: delete_tasks_def Let_def)
qed

lemma deleteTask_db:
  "db (snd (deleteTask user taskId w)) = db w \<or>
   db (snd (deleteTask user taskId w)) = delete_tasks user taskId (db w)"
proof -
  let ?q = "\<lambda>d. Inr ((), delete_tasks user taskId d)"
  obtain r w1 where req: "request ?q w = (r, w1)"
    by (cases "request ?q w")
  show ?thesis
  proof (cases r)
    case (Inl e)
    with req show ?thesis
      using request_Inl [of ?q w e w1] by (simp add: deleteTask_def)
  next
    case (Inr a)
    with req have "db w1 = delete_tasks user taskId (db w)"
      using request_Inr [of ?q w a w1] by simp
    with req Inr show ?thesis
      using fetchTasks_db [of user w1] by (simp add: deleteTask_def case_prod_beta)
  qed
qed

lemma deleteTask_answered:
  "answering w \<Longrightarrow> db (snd (deleteTask user taskId w)) = delete_tasks user taskId (db w)"
  using request_answering [of w "\<lambda>d. Inr ((), delete_tasks user taskId d)" "()"
      "delete_tasks user taskId (db w)"] fetchTasks_db [of user "w\<lparr>db := delete_tasks user taskId (db w), faults := tl (faults w)\<rparr>"]
  by (simp add: deleteTask_def case_prod_beta)

text \<open>
  C7. For every task id: when a task with that id was stored and \<open>deleteTask\<close> has removed
  it, no share row referencing that id remains.
\<close>

theorem delete_cascades:
  assumes "\<exists>t \<in> set (db_tasks (db w)). t_id t = taskId"
    and "\<forall>t \<in> set (db_tasks (db (snd (deleteTask user taskId w)))). t_id t \<noteq> taskId"
  shows "\<forall>s \<in> set (db_task_shares (db (snd (deleteTask user taskId w)))). s_task_id s \<noteq> taskId"
  using deleteTask_db [of user taskId w]
proof
  assume "db (snd (deleteTask user taskId w)) = db w"
  with assms show ?thesis by auto
next
  assume "db (snd (deleteTask user taskId w)) = delete_tasks user taskId (db w)"
  with assms delete_tasks_cascade [of "db w" taskId user] show ?thesis
    by simp
qed

theorem delete_cascades_witness:
  "db_tasks (db (session scenario_b)) = [report_task] \<and>
   db_task_shares (db (session scenario_b)) = [share_with bob View] \<and>
   db_tasks (db (snd (deleteTask (Some alice) 10 (session scenario_b)))) = [] \<and>
   db_task_shares (db (snd (deleteTask (Some alice) 10 (session scenario_b)))) = []"
proof -
  have "delete_tasks (Some alice) 10 scenario_b = scenario_a\<lparr>db_tasks := []\<rparr>"
    by (simp add: delete_tasks_def delete_target_def scenario_defs policy_defs)
  then have gone: "db (snd (deleteTask (Some alice) 10 (session scenario_b))) =
      scenario_a\<lparr>db_tasks := []\<rparr>"
    using deleteTask_answered [OF answering_session, of "Some alice" 10 scenario_b]
    by (simp add: session_def)
  have before: "\<exists>t \<in> set (db_tasks (db (session scenario_b))). t_id t = 10"
    by (simp add: scenario_defs)
  have after: "\<forall>t \<in> set (db_tasks (db (snd (deleteTask (Some alice) 10 (session scenario_b))))).
      t_id t \<noteq> 10"
    by (simp add: gone)
  have "\<forall>s \<in> set (db_task_shares (db (snd (deleteTask (Some alice) 10 (session scenario_b))))).
      s_task_id s \<noteq> 10"
    using delete_cascades [OF before after] .
  with gone show ?thesis
    by (simp add: scenario_defs)
qed

section \<open>The visible task list\<close>

lemma owned_ids:
  "map (t_id \<circ> tv_task) (select_owned_tasks caller uid d) =
     map t_id (filter (\<lambda>t. t_user_id t = uid) (select_tasks caller d))"
  by (simp add: select_owned_tasks_def comp_def)

lemma shared_ids:
  "map (t_id \<circ> tv_task) (select_shared_tasks caller uid d) =
     map t_id (filter (\<lambda>t. filter (\<lambda>s. s_task_id s = t_id t \<and> s_shared_with_user_id s = uid)
                                (select_task_shares caller d) \<noteq> [])
                 (select_tasks caller d))"
  by (simp add: select_shared_tasks_def filter_map comp_def)

lemma visible_lists_distinct:
  assumes ids: "distinct (map t_id (db_tasks d))"
    and apart: "\<not> (\<exists>t \<in> set (db_tasks d). \<exists>s \<in> set (db_task_shares d).
                 t_user_id t = uid \<and> s_task_id s = t_id t \<and> s_shared_with_user_id s = uid)"
  shows "distinct (map (t_id \<circ> tv_task)
           (select_owned_tasks caller uid d @ select_shared_tasks caller uid d))"
proof -
  have vis: "distinct (map t_id (select_tasks caller d))"
    using ids by (simp add: select_tasks_def distinct_map_filter)
  have owned: "distinct (map (t_id \<circ> tv_task) (select_owned_tasks caller uid d))"
    using vis by (simp only: owned_ids distinct_map_filter)
  have shared: "distinct (map (t_id \<circ> tv_task) (select_shared_tasks caller uid d))"
    using vis by (simp only: shared_ids distinct_map_filter)
  have "set (map (t_id \<circ> tv_task) (select_owned_tasks caller uid d)) \<inter>
        set (map (t_id \<circ> tv_task) (select_shared_tasks caller uid d)) = {}"
  proof (rule ccontr)
    assume "\<not> ?thesis"
    then obtain i where
      i1: "i \<in> set (map (t_id \<circ> tv_task) (select_owned_tasks caller uid d))" and
      i2: "i \<in> set (map (t_id \<circ> tv_task) (select_shared_tasks caller uid d))"
      by blast
    from i1 obtain a where a: "a \<in> set (db_tasks d)" "t_user_id a = uid" "t_id a = i"
      unfolding owned_ids by (auto simp: select_tasks_def)
    from i2 obtain b where b: "b \<in> set (db_tasks d)" "t_id b = i"
      "filter (\<lambda>s. s_task_id s = t_id b \<and> s_shared_with_user_id s = uid)
         (select_task_shares caller d) \<noteq> []"
      unfolding shared_ids by (auto simp: select_tasks_def)
    from b(3) obtain s where s: "s \<in> set (db_task_shares d)" "s_task_id s = i"
      "s_shared_with_user_id s = uid"
      using b(2) by (auto simp: filter_empty_conv select_task_shares_def)
    with a apart show False by auto
  qed
  with owned shared show ?thesis
    by (simp only: map_append distinct_append simp_thms)
qed

text \<open>
  C4 (amended). A fetch that shows no error leaves as the visible list the owned tasks
  followed by the shared-in tasks, concatenated with no de-duplication step. When task
  ids are unique in the table and no task owned by the caller is shared to the caller,
  that list has no two entries of the same task id.
\<close>

theorem fetched_tasks_distinct:
  assumes "fst (fetchTasks (Some uid) w) = []"
  shows "tasks (ui (snd (fetchTasks (Some uid) w))) =
           select_owned_tasks (Some uid) uid (db w) @ select_shared_tasks (Some uid) uid (db w) \<and>
         (distinct (map t_id (db_tasks (db w))) \<and>
          \<not> (\<exists>t \<in> set (db_tasks (db w)). \<exists>s \<in> set (db_task_shares (db w)).
                t_user_id t = uid \<and> s_task_id s = t_id t \<and> s_shared_with_user_id s = uid)
          \<longrightarrow> distinct (map (t_id \<circ> tv_task) (tasks (ui (snd (fetchTasks (Some uid) w))))))"
proof (intro conjI impI)
  show shown: "tasks (ui (snd (fetchTasks (Some uid) w))) =
      select_owned_tasks (Some uid) uid (db w) @ select_shared_tasks (Some uid) uid (db w)"
    using assms by (rule fetchTasks_shown)
  assume "distinct (map t_id (db_tasks (db w))) \<and>
    \<not> (\<exists>t \<in> set (db_tasks (db w)). \<exists>s \<in> set (db_task_shares (db w)).
          t_user_id t = uid \<and> s_task_id s = t_id t \<and> s_shared_with_user_id s = uid)"
  then have "distinct (map (t_id \<circ> tv_task)
      (select_owned_tasks (Some uid) uid (db w) @ select_shared_tasks (Some uid) uid (db w)))"
    by (intro visible_lists_distinct) simp_all
  with shown show "distinct (map (t_id \<circ> tv_task) (tasks (ui (snd (fetchTasks (Some uid) w)))))"
    by simp
qed

theorem fetched_tasks_distinct_witness:
  "fst (fetchTasks (Some bob) (session scenario_c)) = [] \<and>
   map (t_id \<circ> tv_task) (select_owned_tasks (Some bob) bob scenario_c) = [11] \<and>
   map (t_id \<circ> tv_task) (select_shared_tasks (Some bob) bob scenario_c) = [10] \<and>
   map (t_id \<circ> tv_task) (tasks (ui (snd (fetchTasks (Some bob) (session scenario_c)))))
     = [11, 10] \<and>
   distinct (map t_id (db_tasks scenario_c)) \<and>
   distinct (map (t_id \<circ> tv_task) (tasks (ui (snd (fetchTasks (Some bob) (session scenario_c))))))"
proof -
  have quiet: "fst (fetchTasks (Some bob) (session scenario_c)) = []"
    by (simp add: fetch_session)
  have ids: "distinct (map t_id (db_tasks (db (session scenario_c))))"
    by (simp add: scenario_defs)
  have apart: "\<not> (\<exists>t \<in> set (db_tasks (db (session scenario_c))).
      \<exists>s \<in> set (db_task_shares (db (session scenario_c))).
        t_user_id t = bob \<and> s_task_id s = t_id t \<and> s_shared_with_user_id s = bob)"
    by (simp add: scenario_defs)
  have vis: "select_tasks (Some bob) scenario_c = [report_task, bobs_task]"
    by (simp add: scenario_defs policy_defs)
  have shares: "select_task_shares (Some bob) scenario_c = [share_with bob View]"
    by (simp add: scenario_defs policy_defs)
  have owned: "map (t_id \<circ> tv_task) (select_owned_tasks (Some bob) bob scenario_c) = [11]"
    unfolding owned_ids vis by (simp add: scenario_defs)
  have shared: "map (t_id \<circ> tv_task) (select_shared_tasks (Some bob) bob scenario_c) = [10]"
    unfolding shared_ids vis shares by (simp add: scenario_defs)
  have here: "db (session scenario_c) = scenario_c"
    by (simp add: session_def)
  from fetched_tasks_distinct [OF quiet] ids apart owned shared quiet here show ?thesis
    by simp
qed

theorem fetched_tasks_counterexample:
  "db (snd (shareTask (Some alice) 20 101 10 ''alice@example.com'' View (session scenario_a)))
     = scenario_self \<and>
   map (t_id \<circ> tv_task) (tasks (ui (snd (fetchTasks (Some alice) (session scenario_self)))))
     = [10, 10]"
proof -
  have lookup: "select_profile_by_email (Some alice) ''alice@example.com'' scenario_a = Inr alice"
    by (simp add: select_profile_by_email_def users_can_view_all_profiles_def scenario_defs)
  have stored: "insert_share (Some alice) 20 101
      \<lparr>si_task_id = 10, si_shared_by_user_id = Some alice,
       si_shared_with_user_id = alice, si_permission = View\<rparr> scenario_a = Inr scenario_self"
    by (simp add: insert_share_def scenario_defs policy_defs)
  have reach: "db (snd (shareTask (Some alice) 20 101 10 ''alice@example.com'' View
      (session scenario_a))) = scenario_self"
    using fetchTasks_db [of "Some alice" "\<lparr>db = scenario_self, faults = [], ui = \<lparr>tasks = [], loading = True\<rparr>\<rparr>"]
    by (simp add: shareTask_def request_def run_def session_def lookup stored case_prod_beta)
  have vis: "select_tasks (Some alice) scenario_self = [report_task]"
    by (simp add: scenario_defs policy_defs)
  have shares: "select_task_shares (Some alice) scenario_self = [share_with alice View]"
    by (simp add: scenario_defs policy_defs)
  have "map (t_id \<circ> tv_task) (select_owned_tasks (Some alice) alice scenario_self) = [10]"
    unfolding owned_ids vis by (simp add: scenario_defs)
  moreover have "map (t_id \<circ> tv_task) (select_shared_tasks (Some alice) alice scenario_self) = [10]"
    unfolding shared_ids vis shares by (simp add: scenario_defs)
  ultimately show ?thesis
    using reach by (simp add: fetch_session)
qed

section \<open>Creating a task\<close>

lemma insert_task_accepts:
  assumes "pg_text (td_title taskData)" and "pg_text_opt (td_description taskData)"
    and "gen \<notin> t_id ` set (db_tasks d)" and "uid \<in> p_id ` set (db_profiles d)"
  shows "insert_task (Some uid) gen now uid taskData d =
           Inr (task_row gen now uid taskData,
                d\<lparr>db_tasks := db_tasks d @ [task_row gen now uid taskData]\<rparr>)"
  using assms
  by (simp add: insert_task_def Let_def users_can_insert_own_tasks_def tasks_select_policy_def
        users_can_view_own_tasks_def task_row_def)

lemma insert_task_nul:
  "\<not> pg_text (td_title taskData) \<Longrightarrow>
     insert_task caller gen now uid taskData d = Inl UntranslatableCharacter"
  by (simp add: insert_task_def Let_def)

lemma createTask_nul_title:
  "createTask (Some alice) 11 102 nul_titled (session scenario_a) =
     ([Toast ''Error'' ''Failed to create task'' Destructive], session scenario_a)"
proof -
  have "\<not> pg_text (td_title nul_titled)"
    by (simp add: nul_titled_def untitled_def pg_text_def)
  then have "insert_task (Some alice) 11 102 alice nul_titled scenario_a =
      Inl UntranslatableCharacter"
    by (rule insert_task_nul)
  then show ?thesis
    by (simp add: createTask_def request_def run_def session_def)
qed

text \<open>
  C5 (amended). Without a signed-in user \<open>createTask\<close> returns at once: it creates no
  task, and it shows no error. An empty title is not refused: for a signed-in user with a
  profile, a fresh id, a description the database can hold and a provider that answers,
  \<open>createTask\<close> with an empty title stores the task and ends with the success toast.
\<close>

theorem createTask_guard_and_title:
  "createTask None gen now taskData w = ([], w) \<and>
   (td_title taskData = [] \<and> pg_text_opt (td_description taskData) \<and>
    answering w \<and> gen \<notin> t_id ` set (db_tasks (db w)) \<and> uid \<in> p_id ` set (db_profiles (db w))
    \<longrightarrow>
      db_tasks (db (snd (createTask (Some uid) gen now taskData w))) =
        db_tasks (db w) @ [task_row gen now uid taskData] \<and>
      last (fst (createTask (Some uid) gen now taskData w)) =
        Toast ''Success'' ''Task created successfully'' Default)"
proof (intro conjI impI)
  show "createTask None gen now taskData w = ([], w)"
    by (simp add: createTask_def)
next
  assume a: "td_title taskData = [] \<and> pg_text_opt (td_description taskData) \<and>
    answering w \<and> gen \<notin> t_id ` set (db_tasks (db w)) \<and>
    uid \<in> p_id ` set (db_profiles (db w))"
  let ?d = "(db w)\<lparr>db_tasks := db_tasks (db w) @ [task_row gen now uid taskData]\<rparr>"
  from a have "pg_text (td_title taskData)"
    by (simp add: pg_text_def)
  with a have "insert_task (Some uid) gen now uid taskData (db w) =
      Inr (task_row gen now uid taskData, ?d)"
    by (simp add: insert_task_accepts)
  with a have req: "request (insert_task (Some uid) gen now uid taskData) w =
      (Inr (task_row gen now uid taskData), w\<lparr>db := ?d, faults := tl (faults w)\<rparr>)"
    by (simp add: request_answering)
  then show "db_tasks (db (snd (createTask (Some uid) gen now taskData w))) =
      db_tasks (db w) @ [task_row gen now uid taskData]"
    using fetchTasks_db [of "Some uid" "w\<lparr>db := ?d, faults := tl (faults w)\<rparr>"]
    by (simp add: createTask_def case_prod_beta)
  from req show "last (fst (createTask (Some uid) gen now taskData w)) =
      Toast ''Success'' ''Task created successfully'' Default"
    by (simp add: createTask_def case_prod_beta)
qed

theorem createTask_guard_and_title_witness:
  "createTask None 11 102 untitled_described (session scenario_a) = ([], session scenario_a) \<and>
   td_title untitled_described = [] \<and>
   map t_title (db_tasks (db (snd (createTask (Some alice) 11 102 untitled_described
       (session scenario_a))))) = [''Write report'', []] \<and>
   map t_description (db_tasks (db (snd (createTask (Some alice) 11 102 untitled_described
       (session scenario_a))))) = [None, Some ''no title yet''] \<and>
   last (fst (createTask (Some alice) 11 102 untitled_described (session scenario_a))) =
     Toast ''Success'' ''Task created successfully'' Default"
proof -
  have pre: "td_title untitled_described = [] \<and>
      pg_text_opt (td_description untitled_described) \<and>
      answering (session scenario_a) \<and>
      11 \<notin> t_id ` set (db_tasks (db (session scenario_a))) \<and>
      alice \<in> p_id ` set (db_profiles (db (session scenario_a)))"
    by (simp add: answering_def scenario_defs pg_text_opt_def pg_text_def)
  with createTask_guard_and_title [of 11 102 untitled_described "session scenario_a" alice]
  show ?thesis
    by (simp add: scenario_defs task_row_def)
qed

theorem createTask_counterexample:
  "td_title untitled = [] \<and>
   fst (createTask (Some alice) 11 102 untitled (session scenario_a)) =
     [Toast ''Success'' ''Task created successfully'' Default] \<and>
   map t_title (db_tasks (db (snd (createTask (Some alice) 11 102 untitled (session scenario_a)))))
     = [''Write report'', []] \<and>
   fst (createTask None 11 102 untitled (session scenario_a)) = []"
proof -
  let ?d = "scenario_a\<lparr>db_tasks := db_tasks scenario_a @ [task_row 11 102 alice untitled]\<rparr>"
  have stored: "insert_task (Some alice) 11 102 alice untitled scenario_a =
      Inr (task_row 11 102 alice untitled, ?d)"
    by (rule insert_task_accepts)
       (simp_all add: scenario_defs pg_text_def pg_text_opt_def)
  have run: "createTask (Some alice) 11 102 untitled (session scenario_a) =
      (fst (fetchTasks (Some alice) (session ?d)) @
         [Toast ''Success'' ''Task created successfully'' Default],
       snd (fetchTasks (Some alice) (session ?d)))"
    by (simp add: createTask_def request_def run_def session_def stored case_prod_beta)
  have quiet: "fst (fetchTasks (Some alice) (session ?d)) = []"
    by (simp add: fetch_session)
  have "db (snd (fetchTasks (Some alice) (session ?d))) = ?d"
    using fetchTasks_db [of "Some alice" "session ?d"] by (simp add: session_def)
  with run quiet show ?thesis
    by (simp add: createTask_def scenario_defs task_row_def)
qed

section \<open>Profiles\<close>




section \<open>Failed mutations\<close>

lemma createTask_failed:
  assumes "set (fst (createTask user gen now taskData w)) \<inter> set (failure_toasts m) \<noteq> {}"
  shows "ui (snd (createTask user gen now taskData w)) = ui w \<and>
         db (snd (createTask user gen now taskData w)) = db w"
proof (cases user)
  case None
  then show ?thesis by (simp add: createTask_def)
next
  case (Some uid)
  obtain r w1 where req: "request (insert_task user gen now uid taskData) w = (r, w1)"
    by (cases "request (insert_task user gen now uid taskData) w")
  show ?thesis
  proof (cases r)
    case (Inl e)
    with req Some show ?thesis
      using request_Inl [of "insert_task user gen now uid taskData" w e w1]
      by (simp add: createTask_def)
  next
    case (Inr a)
    with req Some assms success_path_no_failure [of user w1 "''Task created successfully''" m]
    show ?thesis
      by (simp add: createTask_def split: prod.splits)
  qed
qed

lemma updateTask_failed:
  assumes "set (fst (updateTask user taskId updates w)) \<inter> set (failure_toasts m) \<noteq> {}"
  shows "ui (snd (updateTask user taskId updates w)) = ui w \<and>
         db (snd (updateTask user taskId updates w)) = db w"
proof -
  let ?q = "\<lambda>d. map_sum id (Pair ()) (update_tasks user updates taskId d)"
  obtain r w1 where req: "request ?q w = (r, w1)"
    by (cases "request ?q w")
  show ?thesis
  proof (cases r)
    case (Inl e)
    with req show ?thesis
      using request_Inl [of ?q w e w1] by (simp add: updateTask_def)
  next
    case (Inr a)
    with req assms success_path_no_failure [of user w1 "''Task updated successfully''" m]
    show ?thesis
      by (simp add: updateTask_def split: prod.splits)
  qed
qed

lemma deleteTask_failed:
  assumes "set (fst (deleteTask user taskId w)) \<inter> set (failure_toasts m) \<noteq> {}"
  shows "ui (snd (deleteTask user taskId w)) = ui w \<and>
         db (snd (deleteTask user taskId w)) = db w"
proof -
  let ?q = "\<lambda>d. Inr ((), delete_tasks user taskId d)"
  obtain r w1 where req: "request ?q w = (r, w1)"
    by (cases "request ?q w")
  show ?thesis
  proof (cases r)
    case (Inl e)
    with req show ?thesis
      using request_Inl [of ?q w e w1] by (simp add: deleteTask_def)
  next
    case (Inr a)
    with req assms success_path_no_failure [of user w1 "''Task deleted successfully''" m]
    show ?thesis
      by (simp add: deleteTask_def split: prod.splits)
  qed
qed

lemma shareTask_failed:
  assumes "set (fst (shareTask user gen now taskId email permission w))
             \<inter> set (failure_toasts m) \<noteq> {}"
  shows "ui (snd (shareTask user gen now taskId email permission w)) = ui w \<and>
         db (snd (shareTask user gen now taskId email permission w)) = db w"
proof -
  let ?q = "\<lambda>d. map_sum id (\<lambda>i. (i, d)) (select_profile_by_email user email d)"
  obtain r w1 where req: "request ?q w = (r, w1)"
    by (cases "request ?q w")
  show ?thesis
  proof (cases r)
    case (Inl e)
    with req show ?thesis
      using request_Inl [of ?q w e w1] by (simp add: shareTask_def)
  next
    case (Inr profile_id)
    with req have same: "db w1 = db w" "ui w1 = ui w"
      using request_Inr [of ?q w profile_id w1]
      by (auto simp: map_sum_def split: sum.splits)
    let ?i = "\<lambda>d. map_sum id (Pair ())
                   (insert_share user gen now
                      \<lparr>si_task_id = taskId, si_shared_by_user_id = user,
                       si_shared_with_user_id = profile_id, si_permission = permission\<rparr> d)"
    obtain r2 w2 where ins: "request ?i w1 = (r2, w2)"
      by (cases "request ?i w1")
    show ?thesis
    proof (cases r2)
      case (Inl e)
      with req Inr ins same show ?thesis
        using request_Inl [of ?i w1 e w2] by (simp add: shareTask_def)
    next
      case (Inr a)
      with req \<open>r = Inr profile_id\<close> ins assms
        success_path_no_failure [of user w2 "''Task shared with '' @ email" m]
      show ?thesis
        by (simp add: shareTask_def split: prod.splits)
    qed
  qed
qed

text \<open>
  C8. Whenever a mutation (createTask, updateTask, deleteTask, shareTask) shows its
  failure toast, the tasks the hook displays are the ones it displayed before: the
  hook's state is untouched, and so is the database.
\<close>

theorem failed_mutation_keeps_state:
  "set (fst (mutate user m w)) \<inter> set (failure_toasts m) \<noteq> {} \<Longrightarrow>
     ui (snd (mutate user m w)) = ui w \<and> db (snd (mutate user m w)) = db w"
proof (cases m)
  case (CreateTask gen now taskData)
  assume "set (fst (mutate user m w)) \<inter> set (failure_toasts m) \<noteq> {}"
  with CreateTask show ?thesis
    using createTask_failed [of user gen now taskData w m] by simp
next
  case (UpdateTask taskId updates)
  assume "set (fst (mutate user m w)) \<inter> set (failure_toasts m) \<noteq> {}"
  with UpdateTask show ?thesis
    using updateTask_failed [of user taskId updates w m] by simp
next
  case (DeleteTask taskId)
  assume "set (fst (mutate user m w)) \<inter> set (failure_toasts m) \<noteq> {}"
  with DeleteTask show ?thesis
    using deleteTask_failed [of user taskId w m] by simp
next
  case (ShareTask gen now taskId email permission)
  assume "set (fst (mutate user m w)) \<inter> set (failure_toasts m) \<noteq> {}"
  with ShareTask show ?thesis
    using shareTask_failed [of user gen now taskId email permission w m] by simp
qed

theorem failed_mutation_keeps_state_witness:
  "fst (mutate (Some alice) (DeleteTask 10) (outage scenario_b)) =
     [Toast ''Error'' ''Failed to delete task'' Destructive] \<and>
   ui (snd (mutate (Some alice) (DeleteTask 10) (outage scenario_b))) =
     \<lparr>tasks = [], loading = True\<rparr> \<and>
   db (snd (mutate (Some alice) (DeleteTask 10) (outage scenario_b))) = scenario_b"
proof -
  have shown: "fst (mutate (Some alice) (DeleteTask 10) (outage scenario_b)) =
      [Toast ''Error'' ''Failed to delete task'' Destructive]"
    by (simp add: deleteTask_def request_def outage_def)
  then have "set (fst (mutate (Some alice) (DeleteTask 10) (outage scenario_b)))
      \<inter> set (failure_toasts (DeleteTask 10)) \<noteq> {}"
    by simp
  from failed_mutation_keeps_state [OF this] shown show ?thesis
    by (simp add: outage_def)
qed

section \<open>The status cycle of the task card\<close>

lemma status_after_pending: "handleStatusChange ''pending'' = Some ''in-progress''"
  by (simp add: handleStatusChange_def statusOrder_def js_rem_def js_at_def)

lemma status_after_in_progress: "handleStatusChange ''in-progress'' = Some ''completed''"
  by (simp add: handleStatusChange_def statusOrder_def js_rem_def js_at_def)

lemma status_after_completed: "handleStatusChange ''completed'' = Some ''pending''"
  by (simp add: handleStatusChange_def statusOrder_def js_rem_def js_at_def)

text \<open>
  C10. \<open>handleStatusChange\<close> maps pending to in-progress, in-progress to completed and
  completed to pending; applied three times to any of the three statuses it gives the
  status it started from.
\<close>

theorem status_cycle:
  "handleStatusChange ''pending'' = Some ''in-progress'' \<and>
   handleStatusChange ''in-progress'' = Some ''completed'' \<and>
   handleStatusChange ''completed'' = Some ''pending'' \<and>
   (\<forall>s \<in> set statusOrder.
      Option.bind (Option.bind (handleStatusChange s) handleStatusChange) handleStatusChange
        = Some s)"
  using status_after_pending status_after_in_progress status_after_completed
  by (simp add: statusOrder_def)

theorem status_cycle_witness:
  "''in-progress'' \<in> set statusOrder \<and>
   Option.bind (Option.bind (handleStatusChange ''in-progress'') handleStatusChange)
     handleStatusChange = Some ''in-progress''"
proof -
  have member: "''in-progress'' \<in> set statusOrder"
    by (simp add: statusOrder_def)
  with status_cycle show ?thesis
    by blast
qed

end
